theory Spec2Isabelle
  imports Complex_Main
begin

section \<open>Riksdagen archive search server: a shallow embedding\<close>

text \<open>
  The module \<^verbatim>\<open>mcp_riksdagen_server.py\<close> has three parts: the dataclass
  \<^verbatim>\<open>RiksdagenSearchParams\<close> with \<^verbatim>\<open>to_query_params\<close>, the client
  \<^verbatim>\<open>RiksdagenClient.search_documents\<close>, and the tools \<^verbatim>\<open>riksdagen_search\<close> and
  \<^verbatim>\<open>riksdagen_create_url_list\<close>.

  Python strings are modelled by \<^typ>\<open>string\<close>, one \<^typ>\<open>char\<close> per code point, so the
  model covers the strings whose code points are below 256. Python exceptions are values
  of the type \<open>error\<close>; a function that may raise returns \<open>error + 'a\<close>, with \<open>Inl\<close> the
  exception raised.
\<close>

subsection \<open>Exceptions\<close>

text \<open>
  \<open>Exception msg\<close> is the \<^verbatim>\<open>raise Exception(f"...")\<close> of \<^verbatim>\<open>search_documents\<close> with its
  message. The other constructors are the built-in exception classes the code can raise;
  their message texts are not modelled.
\<close>

datatype error =
    Exception string
  | ValueError
  | TypeError
  | AttributeError
  | KeyError
  | OverflowError
  | JSONDecodeError

definition bind_result :: "error + 'a \<Rightarrow> ('a \<Rightarrow> error + 'b) \<Rightarrow> error + 'b" where
  "bind_result r f = (case r of Inl e \<Rightarrow> Inl e | Inr v \<Rightarrow> f v)"

subsection \<open>The dataclass \<^verbatim>\<open>RiksdagenSearchParams\<close>\<close>

text \<open>
  Fields in declaration order. A field annotated \<^verbatim>\<open>Optional[str]\<close> is a
  \<^typ>\<open>string option\<close> (\<open>None\<close> is Python's \<^verbatim>\<open>None\<close>); the three fields annotated
  \<^verbatim>\<open>str\<close> are strings. The fields \<^verbatim>\<open>sort\<close> and \<^verbatim>\<open>a\<close> carry a prime, since the
  plain names are taken.
\<close>

record RiksdagenSearchParams =
  sok :: "string option"
  doktyp :: "string option"
  rm :: "string option"
  from_date :: "string option"
  tom :: "string option"
  ts :: "string option"
  bet :: "string option"
  tempbet :: "string option"
  nr :: "string option"
  org :: "string option"
  iid :: "string option"
  webbtv :: "string option"
  talare :: "string option"
  exakt :: "string option"
  planering :: "string option"
  sort' :: string
  sortorder :: string
  rapport :: "string option"
  utformat :: string
  a' :: "string option"

text \<open>\<^verbatim>\<open>RiksdagenSearchParams()\<close>: every field at its declared default.\<close>

definition default_params :: RiksdagenSearchParams where
  "default_params =
     \<lparr>sok = None, doktyp = None, rm = None, from_date = None, tom = None, ts = None,
      bet = None, tempbet = None, nr = None, org = None, iid = None, webbtv = None,
      talare = None, exakt = None, planering = None, sort' = ''rel'',
      sortorder = ''desc'', rapport = None, utformat = ''json'', a' = None\<rparr>"

text \<open>
  \<^verbatim>\<open>self.__dict__.items()\<close>: the attribute names with their values, in declaration order.
\<close>

definition dict_items :: "RiksdagenSearchParams \<Rightarrow> (string \<times> string option) list" where
  "dict_items p =
     [(''sok'', sok p), (''doktyp'', doktyp p), (''rm'', rm p),
      (''from_date'', from_date p), (''tom'', tom p), (''ts'', ts p), (''bet'', bet p),
      (''tempbet'', tempbet p), (''nr'', nr p), (''org'', org p), (''iid'', iid p),
      (''webbtv'', webbtv p), (''talare'', talare p), (''exakt'', exakt p),
      (''planering'', planering p), (''sort'', Some (sort' p)),
      (''sortorder'', Some (sortorder p)), (''rapport'', rapport p),
      (''utformat'', Some (utformat p)), (''a'', a' p)]"

text \<open>
  The loop of \<^verbatim>\<open>to_query_params\<close>: \<open>params\<close> is the dictionary built so far.
\<close>

fun to_query_loop ::
  "(string \<times> string option) list \<Rightarrow> (string \<rightharpoonup> string) \<Rightarrow> (string \<rightharpoonup> string)" where
  "to_query_loop [] params = params"
| "to_query_loop ((key, value) # rest) params =
     (case value of
        None \<Rightarrow> to_query_loop rest params
      | Some v \<Rightarrow>
          if key = ''from_date'' then to_query_loop rest (params(''from'' \<mapsto> v))
          else to_query_loop rest (params(key \<mapsto> v)))"

definition to_query_params :: "RiksdagenSearchParams \<Rightarrow> (string \<rightharpoonup> string)" where
  "to_query_params p = to_query_loop (dict_items p) Map.empty"

text \<open>
  The key under which the field \<open>key\<close> is sent upstream, as the specification words it:
  \<^verbatim>\<open>from_date\<close> goes out as \<^verbatim>\<open>from\<close>, every other field under its own name.
\<close>

definition canonical_name :: "string \<Rightarrow> string" where
  "canonical_name key = (if key = ''from_date'' then ''from'' else key)"

subsection \<open>JSON values\<close>

text \<open>
  What \<^verbatim>\<open>response.json()\<close> returns: \<^verbatim>\<open>None\<close>, a bool, an int, a float, a str, a list or
  a dict with string keys. A dict is an association list read with \<^const>\<open>map_of\<close>. A
  float is the rational number it denotes, or one of the three special values.
\<close>

datatype pyfloat = Finite rat | PosInf | NegInf | NaN

datatype json =
    JNull
  | JBool bool
  | JInt int
  | JFloat pyfloat
  | JStr string
  | JList "json list"
  | JObj "(string \<times> json) list"

subsection \<open>The Python operations the tools use\<close>

text \<open>\<^verbatim>\<open>d.get(key, dflt)\<close> on a dict.\<close>

definition dict_get :: "(string \<times> json) list \<Rightarrow> string \<Rightarrow> json \<Rightarrow> json" where
  "dict_get d key dflt = (case map_of d key of None \<Rightarrow> dflt | Some v \<Rightarrow> v)"

text \<open>
  \<^verbatim>\<open>obj.get(key, dflt)\<close> on any value: only a dict has the attribute \<^verbatim>\<open>get\<close>.
\<close>

definition py_get :: "json \<Rightarrow> string \<Rightarrow> json \<Rightarrow> error + json" where
  "py_get obj key dflt =
     (case obj of JObj d \<Rightarrow> Inr (dict_get d key dflt) | _ \<Rightarrow> Inl AttributeError)"

fun starts_with :: "string \<Rightarrow> string \<Rightarrow> bool" where
  "starts_with [] s = True"
| "starts_with (c # cs) [] = False"
| "starts_with (c # cs) (d # ds) = (c = d \<and> starts_with cs ds)"

fun contains_str :: "string \<Rightarrow> string \<Rightarrow> bool" where
  "contains_str key [] = (key = [])"
| "contains_str key (c # cs) = (starts_with key (c # cs) \<or> contains_str key cs)"

text \<open>
  \<^verbatim>\<open>key in obj\<close> for a string \<open>key\<close>: a key of a dict, an element of a list, a substring
  of a str; the other values are not iterable.
\<close>

definition py_in :: "string \<Rightarrow> json \<Rightarrow> error + bool" where
  "py_in key obj =
     (case obj of
        JObj d \<Rightarrow> Inr (map_of d key \<noteq> None)
      | JList xs \<Rightarrow> Inr (JStr key \<in> set xs)
      | JStr s \<Rightarrow> Inr (contains_str key s)
      | _ \<Rightarrow> Inl TypeError)"

text \<open>
  \<^verbatim>\<open>obj[key]\<close> for a string \<open>key\<close>: a dict looks the key up, every other value raises
  \<^verbatim>\<open>TypeError\<close> (a list or str wants an integer index, the rest is not subscriptable).
\<close>

definition py_getitem :: "json \<Rightarrow> string \<Rightarrow> error + json" where
  "py_getitem obj key =
     (case obj of
        JObj d \<Rightarrow> (case map_of d key of None \<Rightarrow> Inl KeyError | Some v \<Rightarrow> Inr v)
      | _ \<Rightarrow> Inl TypeError)"

text \<open>
  \<^verbatim>\<open>xs[:limit]\<close> on a sequence: a negative \<open>limit\<close> counts from the end, and the bounds
  are clipped to the sequence.
\<close>

definition slice_to :: "'a list \<Rightarrow> int \<Rightarrow> 'a list" where
  "slice_to xs limit =
     (if limit < 0 then take (nat (int (length xs) + limit)) xs else take (nat limit) xs)"

text \<open>
  \<^verbatim>\<open>obj[:limit]\<close>, as the sequence the \<^verbatim>\<open>for\<close> loop then walks: a list gives its
  elements, a str its characters as one-character strings. A dict cannot be sliced
  (\<^verbatim>\<open>TypeError\<close>: unhashable slice; from Python 3.12 a slice is hashable and the lookup
  raises \<^verbatim>\<open>KeyError\<close> instead), and the other values are not subscriptable.
\<close>

definition py_slice_to :: "json \<Rightarrow> int \<Rightarrow> error + json list" where
  "py_slice_to obj limit =
     (case obj of
        JList xs \<Rightarrow> Inr (slice_to xs limit)
      | JStr s \<Rightarrow> Inr (map (\<lambda>c. JStr [c]) (slice_to s limit))
      | _ \<Rightarrow> Inl TypeError)"

subsection \<open>\<^verbatim>\<open>int(x)\<close>\<close>

text \<open>
  Whitespace as \<^verbatim>\<open>int\<close> skips it around a literal: tab, line feed, vertical tab, form
  feed, carriage return, space, and U+0085 and U+00A0.
\<close>

definition is_space :: "char \<Rightarrow> bool" where
  "is_space c = ((of_char c :: nat) \<in> {9, 10, 11, 12, 13, 32, 133, 160})"

definition is_digit :: "char \<Rightarrow> bool" where
  "is_digit c = (48 \<le> (of_char c :: nat) \<and> (of_char c :: nat) \<le> 57)"

definition digit_value :: "char \<Rightarrow> int" where
  "digit_value c = int (of_char c) - 48"

text \<open>
  The body of a decimal literal: digits, with single underscores allowed between two
  digits. \<open>prev\<close> is the character before; the scan starts with \<open>prev\<close> an underscore, which
  rules out the empty body and a leading underscore.
\<close>

fun valid_digits :: "string \<Rightarrow> char \<Rightarrow> bool" where
  "valid_digits [] prev = (prev \<noteq> CHR ''_'')"
| "valid_digits (c # cs) prev =
     (if is_digit c then valid_digits cs c
      else if c = CHR ''_'' \<and> prev \<noteq> CHR ''_'' then valid_digits cs c
      else False)"

definition digits_value :: "string \<Rightarrow> int" where
  "digits_value ds = foldl (\<lambda>acc c. 10 * acc + digit_value c) 0 ds"

text \<open>
  \<^verbatim>\<open>int(s)\<close> for a str: \<open>None\<close> is \<^verbatim>\<open>ValueError\<close>. A literal of more than 4300 digits is
  refused (the interpreter's default limit on integer string conversion).
\<close>

definition int_of_str :: "string \<Rightarrow> int option" where
  "int_of_str s =
     (let t = rev (dropWhile is_space (rev (dropWhile is_space s)));
          negative = (t \<noteq> [] \<and> hd t = CHR ''-'');
          body = (if t \<noteq> [] \<and> (hd t = CHR ''-'' \<or> hd t = CHR ''+'') then tl t else t);
          ds = filter is_digit body
      in if valid_digits body (CHR ''_'') \<and> length ds \<le> 4300
         then Some (if negative then - digits_value ds else digits_value ds)
         else None)"

text \<open>\<^verbatim>\<open>int(f)\<close> for a finite float rounds towards zero.\<close>

definition truncate :: "rat \<Rightarrow> int" where
  "truncate r = (if r < 0 then - \<lfloor>- r\<rfloor> else \<lfloor>r\<rfloor>)"

definition py_int :: "json \<Rightarrow> error + int" where
  "py_int x =
     (case x of
        JStr s \<Rightarrow> (case int_of_str s of None \<Rightarrow> Inl ValueError | Some n \<Rightarrow> Inr n)
      | JInt n \<Rightarrow> Inr n
      | JBool b \<Rightarrow> Inr (if b then 1 else 0)
      | JFloat f \<Rightarrow>
          (case f of
             Finite r \<Rightarrow> Inr (truncate r)
           | NaN \<Rightarrow> Inl ValueError
           | _ \<Rightarrow> Inl OverflowError)
      | _ \<Rightarrow> Inl TypeError)"

subsection \<open>\<^verbatim>\<open>RiksdagenClient.search_documents\<close>\<close>

text \<open>
  The HTTP library is outside the module. Its part is a parameter \<open>get\<close>: the outcome of
  \<^verbatim>\<open>self.client.get(endpoint, params=...)\<close>, either an exception of the class
  \<^verbatim>\<open>httpx.HTTPError\<close> or a response. \<^verbatim>\<open>httpx.HTTPError\<close> has two branches: a request
  error (connection refused, DNS failure, timeout, ...) and the status error that
  \<^verbatim>\<open>raise_for_status\<close> raises. Each carries its text \<^verbatim>\<open>str(e)\<close>.
\<close>

datatype HTTPError = RequestError string | HTTPStatusError string

fun str_of :: "HTTPError \<Rightarrow> string" where
  "str_of (RequestError msg) = msg"
| "str_of (HTTPStatusError msg) = msg"

text \<open>
  A response: its status code, the text \<^verbatim>\<open>raise_for_status\<close> gives its exception, and
  what \<^verbatim>\<open>json()\<close> decodes from the body (\<open>None\<close> when the body is not JSON).
\<close>

record Response =
  status_code :: int
  status_text :: string
  json_body :: "json option"

type_synonym http_get = "string \<Rightarrow> (string \<rightharpoonup> string) \<Rightarrow> HTTPError + Response"

definition BASE_URL :: string where
  "BASE_URL = ''https://data.riksdagen.se''"

text \<open>\<^verbatim>\<open>response.raise_for_status()\<close>: every status outside 200..299 raises.\<close>

definition raise_for_status :: "Response \<Rightarrow> HTTPError + Response" where
  "raise_for_status response =
     (if 200 \<le> status_code response \<and> status_code response \<le> 299 then Inr response
      else Inl (HTTPStatusError (status_text response)))"

text \<open>
  The \<^verbatim>\<open>except httpx.HTTPError\<close> clause catches both branches and raises
  \<^verbatim>\<open>Exception\<close> with the text of the cause. An undecodable body raises inside
  \<^verbatim>\<open>response.json()\<close>, which the clause does not catch.
\<close>

definition search_documents :: "http_get \<Rightarrow> RiksdagenSearchParams \<Rightarrow> error + json" where
  "search_documents get params =
     (let endpoint = BASE_URL @ ''/dokumentlista/''
      in case get endpoint (to_query_params params) of
           Inl e \<Rightarrow> Inl (Exception (''Error searching Riksdagen documents: '' @ str_of e))
         | Inr response \<Rightarrow>
             (case raise_for_status response of
                Inl e \<Rightarrow> Inl (Exception (''Error searching Riksdagen documents: '' @ str_of e))
              | Inr r \<Rightarrow>
                  (case json_body r of None \<Rightarrow> Inl JSONDecodeError | Some v \<Rightarrow> Inr v)))"

subsection \<open>\<^verbatim>\<open>riksdagen_search\<close>\<close>

text \<open>The dict appended for one raw entry \<open>doc\<close> that is a dict \<open>d\<close>.\<close>

definition document_entry :: "(string \<times> json) list \<Rightarrow> json" where
  "document_entry d =
     JObj [(''id'', dict_get d ''id'' (JStr '''')),
           (''title'', dict_get d ''titel'' (JStr '''')),
           (''type'', dict_get d ''typ'' (JStr '''')),
           (''document_type'', dict_get d ''doktyp'' (JStr '''')),
           (''date'', dict_get d ''datum'' (JStr '''')),
           (''published'', dict_get d ''publicerad'' (JStr '''')),
           (''parliamentary_year'', dict_get d ''rm'' (JStr '''')),
           (''organization'', dict_get d ''organ'' (JStr '''')),
           (''text_url'', dict_get d ''dokument_url_text'' (JStr '''')),
           (''html_url'', dict_get d ''dokument_url_html'' (JStr '''')),
           (''status'', dict_get d ''status'' (JStr ''''))]"

text \<open>
  One round of the loop body: \<^verbatim>\<open>doc.get\<close> raises \<^verbatim>\<open>AttributeError\<close> at the first call
  when \<open>doc\<close> is not a dict.
\<close>

definition normalize_document :: "json \<Rightarrow> error + json" where
  "normalize_document doc =
     (case doc of JObj d \<Rightarrow> Inr (document_entry d) | _ \<Rightarrow> Inl AttributeError)"

text \<open>The \<^verbatim>\<open>for doc in raw_docs[:limit]\<close> loop, stopping at the first exception.\<close>

fun normalize_all :: "json list \<Rightarrow> error + json list" where
  "normalize_all [] = Inr []"
| "normalize_all (doc # rest) =
     bind_result (normalize_document doc) (\<lambda>entry.
       bind_result (normalize_all rest) (\<lambda>entries. Inr (entry # entries)))"

text \<open>Lines 139 to 156: the list \<^verbatim>\<open>documents\<close>.\<close>

definition extract_documents :: "json \<Rightarrow> int \<Rightarrow> error + json list" where
  "extract_documents results limit =
     bind_result (py_in ''dokumentlista'' results) (\<lambda>has_list.
       if \<not> has_list then Inr []
       else bind_result (py_getitem results ''dokumentlista'') (\<lambda>dokumentlista.
         bind_result (py_in ''dokument'' dokumentlista) (\<lambda>has_docs.
           if \<not> has_docs then Inr []
           else bind_result (py_getitem dokumentlista ''dokument'') (\<lambda>raw_docs.
             bind_result (py_slice_to raw_docs limit) normalize_all))))"

text \<open>
  Line 160: \<^verbatim>\<open>int(results.get("dokumentlista", {}).get("@traffar", "0"))\<close>.
\<close>

definition total_hits :: "json \<Rightarrow> error + int" where
  "total_hits results =
     bind_result (py_get results ''dokumentlista'' (JObj [])) (\<lambda>dokumentlista.
       bind_result (py_get dokumentlista ''@traffar'' (JStr ''0'')) py_int)"

text \<open>
  Lines 138 to 164: what \<^verbatim>\<open>riksdagen_search\<close> makes of the raw result. The list of
  documents is built first, the hit count is parsed after it.
\<close>

definition search_response :: "json \<Rightarrow> int \<Rightarrow> error + json" where
  "search_response results limit =
     bind_result (extract_documents results limit) (\<lambda>documents.
       bind_result (total_hits results) (\<lambda>hits.
         Inr (JObj [(''total_hits'', JInt hits), (''documents'', JList documents)])))"

text \<open>
  Lines 125 to 134: the parameters the tool builds from its arguments, with the output
  format fixed to \<^verbatim>\<open>json\<close>. The arguments carry the suffix \<open>_arg\<close>, the plain names
  being the fields of the dataclass.
\<close>

definition search_params ::
  "string option \<Rightarrow> string option \<Rightarrow> string option \<Rightarrow> string option \<Rightarrow>
   string option \<Rightarrow> string \<Rightarrow> string \<Rightarrow> RiksdagenSearchParams" where
  "search_params sok_arg doktyp_arg rm_arg from_date_arg tom_arg sort_arg sortorder_arg =
     default_params
       \<lparr>sok := sok_arg, doktyp := doktyp_arg, rm := rm_arg, from_date := from_date_arg,
        tom := tom_arg, sort' := sort_arg, sortorder := sortorder_arg, utformat := ''json''\<rparr>"

text \<open>The tool: the search, then the response made of its raw result.\<close>

definition riksdagen_search ::
  "http_get \<Rightarrow> string option \<Rightarrow> string option \<Rightarrow> string option \<Rightarrow> string option \<Rightarrow>
   string option \<Rightarrow> string \<Rightarrow> string \<Rightarrow> int \<Rightarrow> error + json" where
  "riksdagen_search get sok_arg doktyp_arg rm_arg from_date_arg tom_arg sort_arg
       sortorder_arg limit =
     (let params = search_params sok_arg doktyp_arg rm_arg from_date_arg tom_arg sort_arg
                     sortorder_arg
      in bind_result (search_documents get params) (\<lambda>results.
           search_response results limit))"


subsection \<open>\<^verbatim>\<open>riksdagen_create_url_list\<close>\<close>

text \<open>
  \<^verbatim>\<open>str.lower\<close> on code points below 256: the letters A to Z and the capital letters of
  Latin-1 move up by 32.
\<close>

definition lower_char :: "char \<Rightarrow> char" where
  "lower_char c =
     (let n = (of_char c :: nat)
      in if (65 \<le> n \<and> n \<le> 90) \<or> (192 \<le> n \<and> n \<le> 214) \<or> (216 \<le> n \<and> n \<le> 222)
         then char_of (n + 32) else c)"

definition lower :: "string \<Rightarrow> string" where
  "lower s = map lower_char s"

text \<open>The two branches of the loop body build the same URL.\<close>

definition document_url :: "string \<Rightarrow> string \<Rightarrow> string" where
  "document_url format_extension doc_id =
     (if format_extension = ''json''
      then ''https://data.riksdagen.se/dokument/'' @ doc_id @ ''.'' @ format_extension
      else ''https://data.riksdagen.se/dokument/'' @ doc_id @ ''.'' @ format_extension)"

definition riksdagen_create_url_list :: "string list \<Rightarrow> string \<Rightarrow> error + json" where
  "riksdagen_create_url_list document_ids format =
     (let format_extension = lower format
      in if format_extension \<notin> set [''json'', ''html'', ''text''] then Inl ValueError
         else
           let urls = map (\<lambda>doc_id. JObj [(''id'', JStr doc_id),
                                           (''url'', JStr (document_url format_extension doc_id))])
                          document_ids
           in Inr (JObj [(''urls'', JList urls),
                         (''format'', JStr format_extension),
                         (''count'', JInt (int (length urls)))]))"

subsection \<open>Facts about the query loop\<close>

lemma to_query_loop_other:
  "k \<notin> canonical_name ` fst ` set items \<Longrightarrow> to_query_loop items m k = m k"
proof (induction items arbitrary: m)
  case Nil
  then show ?case by simp
next
  case (Cons item items)
  obtain key v where item: "item = (key, v)" by (cases item)
  from Cons.prems item have k: "k \<noteq> canonical_name key"
    and rest: "k \<notin> canonical_name ` fst ` set items" by auto
  show ?case
  proof (cases v)
    case None
    with item Cons.IH [OF rest] show ?thesis by simp
  next
    case (Some x)
    with item Cons.IH [OF rest] k show ?thesis
      by (auto simp: canonical_name_def)
  qed
qed

lemma to_query_loop_field:
  assumes "distinct (map (\<lambda>i. canonical_name (fst i)) items)" and "(key, v) \<in> set items"
  shows "to_query_loop items m (canonical_name key) =
           (case v of None \<Rightarrow> m (canonical_name key) | Some x \<Rightarrow> Some x)"
  using assms
proof (induction items arbitrary: m)
  case Nil
  then show ?case by simp
next
  case (Cons item items)
  obtain key' v' where item: "item = (key', v')" by (cases item)
  from Cons.prems(1) item have fresh: "canonical_name key' \<notin> canonical_name ` fst ` set items"
    by force
  from Cons.prems(1) have dist: "distinct (map (\<lambda>i. canonical_name (fst i)) items)" by simp
  show ?case
  proof (cases "(key, v) = (key', v')")
    case True
    then have eq: "key' = key" "v' = v" by simp_all
    from fresh eq have other: "canonical_name key \<notin> canonical_name ` fst ` set items" by simp
    show ?thesis
    proof (cases v)
      case None
      with item eq to_query_loop_other [OF other] show ?thesis by simp
    next
      case (Some x)
      with item eq to_query_loop_other [OF other] show ?thesis
        by (auto simp: canonical_name_def)
    qed
  next
    case False
    with Cons.prems(2) item have mem: "(key, v) \<in> set items" by auto
    then have "fst (key, v) \<in> fst ` set items" by (rule imageI)
    then have "canonical_name key \<in> canonical_name ` fst ` set items" by simp
    with fresh have ne: "canonical_name key \<noteq> canonical_name key'" by metis
    show ?thesis
    proof (cases v')
      case None
      with item Cons.IH [OF dist mem] show ?thesis by simp
    next
      case (Some x')
      with item Cons.IH [OF dist mem] ne show ?thesis
        by (auto simp: canonical_name_def split: option.splits)
    qed
  qed
qed

lemma dict_items_distinct: "distinct (map (\<lambda>i. canonical_name (fst i)) (dict_items p))"
  by (simp add: dict_items_def canonical_name_def)

lemma to_query_params_field:
  "(key, v) \<in> set (dict_items p) \<Longrightarrow> to_query_params p (canonical_name key) = v"
  unfolding to_query_params_def
  using to_query_loop_field [OF dict_items_distinct, of key v p Map.empty]
  by (simp split: option.splits)

lemma to_query_params_other:
  "k \<notin> canonical_name ` fst ` set (dict_items p) \<Longrightarrow> to_query_params p k = None"
  unfolding to_query_params_def by (simp add: to_query_loop_other)

subsection \<open>Facts about the search response\<close>



lemma total_hits_no_list:
  "map_of r ''dokumentlista'' = None \<Longrightarrow> total_hits (JObj r) = py_int (JStr ''0'')"
  by (simp add: total_hits_def py_get_def dict_get_def bind_result_def)

lemma total_hits_dict:
  "map_of r ''dokumentlista'' = Some (JObj dl) \<Longrightarrow>
   total_hits (JObj r) = py_int (dict_get dl ''@traffar'' (JStr ''0''))"
  by (simp add: total_hits_def py_get_def dict_get_def bind_result_def)

lemma int_of_str_zero: "int_of_str ''0'' = Some 0"
  by (simp add: int_of_str_def is_space_def is_digit_def digits_value_def digit_value_def)





section \<open>The claims\<close>

text \<open>
  C1 (as amended). \<^verbatim>\<open>riksdagen_search\<close> computes \<^verbatim>\<open>total_hits\<close> by applying \<^verbatim>\<open>int\<close> to the
  field \<^verbatim>\<open>@traffar\<close> of the raw result's \<^verbatim>\<open>dokumentlista\<close>. The result is 0 when
  \<^verbatim>\<open>dokumentlista\<close> is missing and when the field is missing. When the field holds a
  string that \<^verbatim>\<open>int\<close> parses, the result is its value; when it holds a string that
  \<^verbatim>\<open>int\<close> does not parse, the call raises \<^verbatim>\<open>ValueError\<close> and does not degrade to 0.
\<close>

theorem total_hits_missing_or_parsed:
  "(map_of r ''dokumentlista'' = None \<longrightarrow> total_hits (JObj r) = Inr 0) \<and>
   (map_of r ''dokumentlista'' = Some (JObj dl) \<longrightarrow> map_of dl ''@traffar'' = None \<longrightarrow>
      total_hits (JObj r) = Inr 0) \<and>
   (map_of r ''dokumentlista'' = Some (JObj dl) \<longrightarrow> map_of dl ''@traffar'' = Some (JStr s) \<longrightarrow>
      total_hits (JObj r) =
        (case int_of_str s of None \<Rightarrow> Inl ValueError | Some n \<Rightarrow> Inr n))"
  by (simp add: total_hits_no_list total_hits_dict dict_get_def py_int_def int_of_str_zero)

theorem total_hits_missing_or_parsed_witness:
  "total_hits (JObj []) = Inr 0 \<and>
   total_hits (JObj [(''dokumentlista'', JObj [])]) = Inr 0 \<and>
   total_hits (JObj [(''dokumentlista'', JObj [(''@traffar'', JStr ''42'')])]) = Inr 42 \<and>
   total_hits (JObj [(''dokumentlista'', JObj [(''@traffar'', JStr ''4 2'')])]) = Inl ValueError"
proof -
  have parsed: "int_of_str ''42'' = Some 42"
    by (simp add: int_of_str_def is_space_def is_digit_def digits_value_def digit_value_def)
  have unparsed: "int_of_str ''4 2'' = None"
    by (simp add: int_of_str_def is_space_def is_digit_def)
  show ?thesis
    using total_hits_missing_or_parsed [of "[]" "[]" "''42''"]
      total_hits_missing_or_parsed [of "[(''dokumentlista'', JObj [])]" "[]" "''42''"]
      total_hits_missing_or_parsed
        [of "[(''dokumentlista'', JObj [(''@traffar'', JStr ''42'')])]"
            "[(''@traffar'', JStr ''42'')]" "''42''"]
      total_hits_missing_or_parsed
        [of "[(''dokumentlista'', JObj [(''@traffar'', JStr ''4 2'')])]"
            "[(''@traffar'', JStr ''4 2'')]" "''4 2''"]
    by (simp add: parsed unparsed)
qed

text \<open>
  C1, as stated, fails: a hit count that is present but is no integer literal makes
  \<^verbatim>\<open>int\<close> raise, and with it the whole search.
\<close>

theorem total_hits_unparsable_raises:
  "total_hits (JObj [(''dokumentlista'', JObj [(''@traffar'', JStr ''abc'')])]) = Inl ValueError \<and>
   search_response (JObj [(''dokumentlista'', JObj [(''@traffar'', JStr ''abc'')])]) 10
     = Inl ValueError"
  by code_simp

text \<open>
  C2 (as amended). \<^verbatim>\<open>to_query_params\<close> includes a field if and only if its value is not
  \<^verbatim>\<open>None\<close>: a field holding \<^verbatim>\<open>None\<close> is not in the mapping, and a field holding a string,
  the empty string too, is in it under its canonical upstream name, bound to that string.
  The mapping has no other keys.
\<close>

theorem to_query_params_non_null_fields:
  "((key, v) \<in> set (dict_items p) \<longrightarrow> to_query_params p (canonical_name key) = v) \<and>
   (k \<notin> canonical_name ` fst ` set (dict_items p) \<longrightarrow> to_query_params p k = None)"
  by (simp add: to_query_params_field to_query_params_other)

theorem to_query_params_non_null_fields_witness:
  "(''sok'', Some ''skatt'') \<in> set (dict_items (default_params\<lparr>sok := Some ''skatt''\<rparr>)) \<and>
   to_query_params (default_params\<lparr>sok := Some ''skatt''\<rparr>) ''sok'' = Some ''skatt'' \<and>
   ''limit'' \<notin> canonical_name ` fst ` set (dict_items (default_params\<lparr>sok := Some ''skatt''\<rparr>)) \<and>
   to_query_params (default_params\<lparr>sok := Some ''skatt''\<rparr>) ''limit'' = None"
  using to_query_params_non_null_fields
    [of "''sok''" "Some ''skatt''" "default_params\<lparr>sok := Some ''skatt''\<rparr>" "''limit''"]
  by (simp add: dict_items_def default_params_def canonical_name_def)

text \<open>
  C2, as stated, fails: the empty string is a value to \<^verbatim>\<open>to_query_params\<close>, which
  serializes it.
\<close>

theorem to_query_params_empty_string_serialized:
  "to_query_params (default_params\<lparr>sok := Some ''''\<rparr>) ''sok'' = Some ''''"
  by (simp add: to_query_params_def dict_items_def default_params_def)

text \<open>
  C3. The key \<^verbatim>\<open>from_date\<close> never occurs in the built mapping. The key \<^verbatim>\<open>from\<close> is bound
  to the value of the from-date field when that is set, and is absent when it is unset.
  Every other field goes out under its own name.
\<close>

theorem from_date_renamed_to_from:
  "to_query_params p ''from_date'' = None \<and>
   to_query_params p ''from'' = from_date p \<and>
   ((key, v) \<in> set (dict_items p) \<longrightarrow> key \<noteq> ''from_date'' \<longrightarrow> to_query_params p key = v)"
proof (intro conjI impI)
  show "to_query_params p ''from_date'' = None"
    by (rule to_query_params_other) (simp add: dict_items_def canonical_name_def)
  have "(''from_date'', from_date p) \<in> set (dict_items p)"
    by (simp add: dict_items_def)
  from to_query_params_field [OF this] show "to_query_params p ''from'' = from_date p"
    by (simp add: canonical_name_def)
next
  assume "(key, v) \<in> set (dict_items p)" and "key \<noteq> ''from_date''"
  with to_query_params_field [of key v p] show "to_query_params p key = v"
    by (simp add: canonical_name_def)
qed

theorem from_date_renamed_to_from_witness:
  "to_query_params (default_params\<lparr>from_date := Some ''2021-01-01''\<rparr>) ''from_date'' = None \<and>
   to_query_params (default_params\<lparr>from_date := Some ''2021-01-01''\<rparr>) ''from''
     = Some ''2021-01-01'' \<and>
   (''tom'', None) \<in> set (dict_items (default_params\<lparr>from_date := Some ''2021-01-01''\<rparr>)) \<and>
   ''tom'' \<noteq> ''from_date'' \<and>
   to_query_params (default_params\<lparr>from_date := Some ''2021-01-01''\<rparr>) ''tom'' = None"
  using from_date_renamed_to_from
    [of "default_params\<lparr>from_date := Some ''2021-01-01''\<rparr>" "''tom''" None]
  by (simp add: dict_items_def default_params_def)

text \<open>
  C4. For the parameters with every field at its default, the built mapping has exactly
  the keys \<^verbatim>\<open>sort\<close>, \<^verbatim>\<open>sortorder\<close> and \<^verbatim>\<open>utformat\<close>, bound to \<^verbatim>\<open>rel\<close>, \<^verbatim>\<open>desc\<close> and
  \<^verbatim>\<open>json\<close>.
\<close>

theorem default_params_query:
  "dom (to_query_params default_params) = {''sort'', ''sortorder'', ''utformat''} \<and>
   to_query_params default_params ''sort'' = Some ''rel'' \<and>
   to_query_params default_params ''sortorder'' = Some ''desc'' \<and>
   to_query_params default_params ''utformat'' = Some ''json''"
  by (auto simp add: to_query_params_def dict_items_def default_params_def split: if_splits)

text \<open>
  C5. The claim: \<^verbatim>\<open>riksdagen_search\<close> returns the first \<open>min limit n\<close> entries of the
  document container, so never more than \<open>limit\<close> documents, as the docstring of the tool
  (\<^verbatim>\<open>Maximum number of results to return\<close>) and the comment above the loop
  (\<^verbatim>\<open>Ensure we don't exceed the limit\<close>) say too. The code does not: the upstream answer has three
  entries and a hit count of 3, the tool is called with limit -1, and it returns the two
  documents A and B, which are more than the limit and are not the first \<open>min limit n\<close>
  entries.
\<close>

theorem riksdagen_search_negative_limit_exceeds:
  "riksdagen_search
     (\<lambda>endpoint query.
        Inr \<lparr>status_code = 200, status_text = ''OK'',
             json_body = Some (JObj [(''dokumentlista'',
               JObj [(''@traffar'', JStr ''3''),
                     (''dokument'',
                      JList [JObj [(''id'', JStr ''A'')], JObj [(''id'', JStr ''B'')],
                             JObj [(''id'', JStr ''C'')]])])])\<rparr>)
     None None None None None ''rel'' ''desc'' (- 1)
     = Inr (JObj [(''total_hits'', JInt 3),
                  (''documents'',
                   JList [document_entry [(''id'', JStr ''A'')],
                          document_entry [(''id'', JStr ''B'')]])]) \<and>
   - 1 < int (length [document_entry [(''id'', JStr ''A'')], document_entry [(''id'', JStr ''B'')]]) \<and>
   int (length [document_entry [(''id'', JStr ''A'')], document_entry [(''id'', JStr ''B'')]])
     \<noteq> min (- 1) 3"
  by (simp add: riksdagen_search_def search_documents_def raise_for_status_def
      search_response_def extract_documents_def total_hits_def py_in_def
      py_getitem_def py_get_def dict_get_def py_slice_to_def slice_to_def bind_result_def
      normalize_document_def py_int_def int_of_str_def is_space_def is_digit_def
      digits_value_def digit_value_def)

text \<open>
  C6. Normalizing a raw entry that is a dict never fails, whichever fields it lacks; for
  an entry that has none of the eleven expected attributes, every field of the result is
  the empty string.
\<close>

theorem normalize_document_missing_fields:
  "(\<exists>entry. normalize_document (JObj d) = Inr entry) \<and>
   ((\<forall>key \<in> set [''id'', ''titel'', ''typ'', ''doktyp'', ''datum'', ''publicerad'', ''rm'',
                    ''organ'', ''dokument_url_text'', ''dokument_url_html'', ''status''].
        map_of d key = None) \<longrightarrow>
    normalize_document (JObj d) =
      Inr (JObj [(''id'', JStr ''''), (''title'', JStr ''''), (''type'', JStr ''''),
                 (''document_type'', JStr ''''), (''date'', JStr ''''),
                 (''published'', JStr ''''), (''parliamentary_year'', JStr ''''),
                 (''organization'', JStr ''''), (''text_url'', JStr ''''),
                 (''html_url'', JStr ''''), (''status'', JStr '''')]))"
  by (simp add: normalize_document_def document_entry_def dict_get_def)

theorem normalize_document_missing_fields_witness:
  "normalize_document (JObj [(''hangar_id'', JStr ''5'')]) =
     Inr (JObj [(''id'', JStr ''''), (''title'', JStr ''''), (''type'', JStr ''''),
                (''document_type'', JStr ''''), (''date'', JStr ''''),
                (''published'', JStr ''''), (''parliamentary_year'', JStr ''''),
                (''organization'', JStr ''''), (''text_url'', JStr ''''),
                (''html_url'', JStr ''''), (''status'', JStr '''')])"
  using normalize_document_missing_fields [of "[(''hangar_id'', JStr ''5'')]"]
  by simp

text \<open>
  C7. When the lowercased format is none of \<^verbatim>\<open>json\<close>, \<^verbatim>\<open>html\<close>, \<^verbatim>\<open>text\<close>,
  \<^verbatim>\<open>riksdagen_create_url_list\<close> raises \<^verbatim>\<open>ValueError\<close> whatever the list of IDs: there is
  no URL entry and no partial result.
\<close>

theorem create_url_list_bad_format:
  "lower format \<notin> {''json'', ''html'', ''text''} \<Longrightarrow>
   riksdagen_create_url_list document_ids format = Inl ValueError"
  by (simp add: riksdagen_create_url_list_def)

theorem create_url_list_bad_format_witness:
  "lower ''pdf'' \<notin> {''json'', ''html'', ''text''} \<and>
   riksdagen_create_url_list [''X''] ''pdf'' = Inl ValueError"
proof -
  have low: "lower ''pdf'' = ''pdf''" by code_simp
  then have bad: "lower ''pdf'' \<notin> {''json'', ''html'', ''text''}" by simp
  from create_url_list_bad_format [OF bad, of "[''X'']"] bad show ?thesis by simp
qed

text \<open>
  C8. When the lowercased format is one of \<^verbatim>\<open>json\<close>, \<^verbatim>\<open>html\<close>, \<^verbatim>\<open>text\<close>, the result
  has one entry per input ID, in input order and with duplicates kept; each URL is
  \<^verbatim>\<open>{base}/dokument/{id}.{extension}\<close> with the lowercased format as extension, the same
  for the three formats; the format returned is the lowercased one and the count is the
  number of input IDs.
\<close>

theorem create_url_list_template:
  "lower format \<in> {''json'', ''html'', ''text''} \<Longrightarrow>
   riksdagen_create_url_list document_ids format =
     Inr (JObj [(''urls'',
                 JList (map (\<lambda>doc_id.
                    JObj [(''id'', JStr doc_id),
                          (''url'', JStr (BASE_URL @ ''/dokument/'' @ doc_id @ ''.'' @ lower format))])
                  document_ids)),
                (''format'', JStr (lower format)),
                (''count'', JInt (int (length document_ids)))])"
  by (simp add: riksdagen_create_url_list_def Let_def document_url_def BASE_URL_def)

theorem create_url_list_template_witness:
  "lower ''HTML'' \<in> {''json'', ''html'', ''text''} \<and>
   riksdagen_create_url_list [''H8C1'', ''H8C2'', ''H8C1''] ''HTML'' =
     Inr (JObj [(''urls'',
                 JList [JObj [(''id'', JStr ''H8C1''),
                              (''url'', JStr ''https://data.riksdagen.se/dokument/H8C1.html'')],
                        JObj [(''id'', JStr ''H8C2''),
                              (''url'', JStr ''https://data.riksdagen.se/dokument/H8C2.html'')],
                        JObj [(''id'', JStr ''H8C1''),
                              (''url'', JStr ''https://data.riksdagen.se/dokument/H8C1.html'')]]),
                (''format'', JStr ''html''),
                (''count'', JInt 3)])"
proof -
  have low: "lower ''HTML'' = ''html''" by code_simp
  then have good: "lower ''HTML'' \<in> {''json'', ''html'', ''text''}" by simp
  from create_url_list_template [OF good, of "[''H8C1'', ''H8C2'', ''H8C1'']"] good
  show ?thesis by (simp add: low BASE_URL_def)
qed

text \<open>
  C9. A failure of the request (connection refused, DNS failure, timeout) and a status
  outside 200..299 both make \<^verbatim>\<open>search_documents\<close> raise the one exception
  \<^verbatim>\<open>Exception\<close>, whose message ends with the text of the cause; and an exception of
  \<^verbatim>\<open>search_documents\<close> leaves \<^verbatim>\<open>riksdagen_search\<close> unchanged, with no documents returned.
\<close>

theorem search_failure_single_error:
  "(get (BASE_URL @ ''/dokumentlista/'') (to_query_params params) = Inl e \<longrightarrow>
      search_documents get params =
        Inl (Exception (''Error searching Riksdagen documents: '' @ str_of e))) \<and>
   (get (BASE_URL @ ''/dokumentlista/'') (to_query_params params) = Inr response \<longrightarrow>
    \<not> (200 \<le> status_code response \<and> status_code response \<le> 299) \<longrightarrow>
      search_documents get params =
        Inl (Exception (''Error searching Riksdagen documents: '' @ status_text response))) \<and>
   (search_documents get
        (search_params sok_arg doktyp_arg rm_arg from_date_arg tom_arg sort_arg sortorder_arg)
      = Inl err \<longrightarrow>
    riksdagen_search get sok_arg doktyp_arg rm_arg from_date_arg tom_arg sort_arg
        sortorder_arg limit = Inl err)"
  by (auto simp add: search_documents_def raise_for_status_def riksdagen_search_def
      bind_result_def)

theorem search_failure_single_error_witness:
  "riksdagen_search (\<lambda>endpoint query. Inl (RequestError ''All connection attempts failed''))
       (Some ''skatt'') None None None None ''rel'' ''desc'' 10
     = Inl (Exception ''Error searching Riksdagen documents: All connection attempts failed'') \<and>
   riksdagen_search
       (\<lambda>endpoint query. Inr \<lparr>status_code = 503, status_text = ''Server error 503'',
                                json_body = Some (JObj [])\<rparr>)
       (Some ''skatt'') None None None None ''rel'' ''desc'' 10
     = Inl (Exception ''Error searching Riksdagen documents: Server error 503'')"
proof -
  let ?refused = "\<lambda>(endpoint :: string) (query :: string \<rightharpoonup> string).
      (Inl (RequestError ''All connection attempts failed'') :: HTTPError + Response)"
  let ?resp = "\<lparr>status_code = 503, status_text = ''Server error 503'',
      json_body = Some (JObj [])\<rparr>"
  let ?unavailable = "\<lambda>(endpoint :: string) (query :: string \<rightharpoonup> string).
      (Inr ?resp :: HTTPError + Response)"
  let ?params = "search_params (Some ''skatt'') None None None None ''rel'' ''desc''"
  have one: "search_documents ?refused ?params =
      Inl (Exception ''Error searching Riksdagen documents: All connection attempts failed'')"
    using search_failure_single_error
      [of ?refused ?params "RequestError ''All connection attempts failed''"]
    by simp
  have two: "search_documents ?unavailable ?params =
      Inl (Exception ''Error searching Riksdagen documents: Server error 503'')"
    using search_failure_single_error [of ?unavailable ?params _ ?resp]
    by simp
  from one two
    search_failure_single_error
      [of ?refused _ _ _ "Some ''skatt''" None None None None "''rel''" "''desc''"
          "Exception ''Error searching Riksdagen documents: All connection attempts failed''" 10]
    search_failure_single_error
      [of ?unavailable _ _ _ "Some ''skatt''" None None None None "''rel''" "''desc''"
          "Exception ''Error searching Riksdagen documents: Server error 503''" 10]
  show ?thesis by simp
qed




end
